theory Spec2Isabelle
  imports Complex_Main "HOL-Library.Sublist"
begin

section \<open>JavaScript values shared by the components\<close>

text \<open>
  An awaited call either delivers a value or rejects with an \<^verbatim>\<open>Error\<close>, of which
  only the message is read by the code.
\<close>

datatype 'a js = Returns 'a | Throws string

text \<open>\<^verbatim>\<open>String.prototype.includes\<close>: the argument occurs as a contiguous substring.\<close>

fun str_includes :: "string \<Rightarrow> string \<Rightarrow> bool" where
  "str_includes [] sub = (sub = [])"
| "str_includes (c # cs) sub = (prefix sub (c # cs) \<or> str_includes cs sub)"

text \<open>Decimal rendering of a non-negative integer, as template literals do.\<close>

fun string_of_nat :: "nat \<Rightarrow> string" where
  "string_of_nat n =
     (if n < 10 then [''0123456789'' ! n]
      else string_of_nat (n div 10) @ [''0123456789'' ! (n mod 10)])"

section \<open>The backend client and the browser stores (lib/supabase)\<close>

text \<open>
  Modelled from the spec: the \<^verbatim>\<open>User\<close> type of \<^verbatim>\<open>./types\<close>, which is not among the
  sources; the spec's data model gives it an id, an email and a role. \<^verbatim>\<open>Session\<close> is the
  client library's session, of which the code reads the user's email only.
\<close>

record User =
  uid :: string
  email :: "string option"
  role :: string

record Session =
  subject :: string
  session_email :: "string option"

text \<open>
  A cookie that \<^verbatim>\<open>document.cookie\<close> shows: its name (trimmed), its value, and whether it
  was set for path \<^verbatim>\<open>/\<close> on the current host. Only such a cookie is replaced by a write
  of \<^verbatim>\<open>name=; expires=...; path=/\<close>; one scoped to another path or domain stays.
\<close>

record cookie =
  cookie_name :: string
  cookie_value :: string
  hostRootScoped :: bool

text \<open>
  The browser-side stores \<^verbatim>\<open>clearSupabaseAuth\<close> works on: \<^verbatim>\<open>localStorage\<close> as its
  entries in \<^verbatim>\<open>key(i)\<close> order (removing an entry keeps the order of the others),
  the cookies \<^verbatim>\<open>document.cookie\<close> shows, and whether touching \<^verbatim>\<open>localStorage\<close>
  raises (storage disabled).
\<close>

record browser =
  localStorage :: "(string \<times> string) list"
  cookies :: "cookie list"
  storageBlocked :: bool

text \<open>
  The hosted service is outside the repository; every call of the client is an input
  of the model. \<^verbatim>\<open>getSession\<close> and \<^verbatim>\<open>getUser\<close> deliver \<^verbatim>\<open>{data, error}\<close>
  or reject; \<^verbatim>\<open>signOut\<close> delivers \<^verbatim>\<open>{error}\<close> or rejects and may itself change
  the browser stores; \<^verbatim>\<open>getCurrentUser\<close> (lib/auth, not among the sources, so its outcome is
  an input too) delivers a user or null, or rejects.
  \<^verbatim>\<open>configured\<close> says that both environment variables are set. The stub client built
  when they are missing is the instance whose \<^verbatim>\<open>getSession\<close> and \<^verbatim>\<open>getUser\<close> deliver
  an error and whose \<^verbatim>\<open>signOut\<close> delivers no error and changes nothing.
\<close>

record backend =
  configured :: bool
  getSession :: "(Session option \<times> string option) js"
  getUser :: "(User option \<times> string option) js"
  signOut :: "browser \<Rightarrow> string option js \<times> browser"
  getCurrentUser :: "User option js"

definition authKey :: "string \<Rightarrow> bool" where
  "authKey key = (str_includes key ''supabase'' \<or> str_includes key ''sb-'')"

definition removeItem :: "string \<Rightarrow> (string \<times> string) list \<Rightarrow> (string \<times> string) list" where
  "removeItem key ls = filter (\<lambda>e. fst e \<noteq> key) ls"

text \<open>
  The loop \<^verbatim>\<open>for (let i = 0; i < localStorage.length; i++)\<close> of \<^verbatim>\<open>clearSupabaseAuth\<close>:
  it reads \<^verbatim>\<open>key(i)\<close>, removes the entry when the key is an auth key, and increments
  \<^verbatim>\<open>i\<close> in either case. The empty key is falsy and is kept.
\<close>

function clearLocalStorage :: "nat \<Rightarrow> (string \<times> string) list \<Rightarrow> (string \<times> string) list" where
  "clearLocalStorage i ls =
     (if i < length ls then
        (if fst (ls ! i) \<noteq> [] \<and> authKey (fst (ls ! i))
         then clearLocalStorage (i + 1) (removeItem (fst (ls ! i)) ls)
         else clearLocalStorage (i + 1) ls)
      else ls)"
  by pat_completeness auto
termination
  by (relation "measure (\<lambda>(i, ls). length ls - i)")
     (auto simp: removeItem_def intro: le_less_trans [OF diff_le_mono [OF length_filter_le]])

text \<open>No two neighbouring entries of the storage both carry an auth key.\<close>

fun noAdjacentAuthKeys :: "(string \<times> string) list \<Rightarrow> bool" where
  "noAdjacentAuthKeys (a # b # rest) =
     (\<not> (authKey (fst a) \<and> authKey (fst b)) \<and> noAdjacentAuthKeys (b # rest))"
| "noAdjacentAuthKeys rest = True"

text \<open>
  The cookie pass: for every cookie whose trimmed name is an auth key an expired cookie of
  that name is written for path \<^verbatim>\<open>/\<close>. That drops the cookie when it was set for path
  \<^verbatim>\<open>/\<close> on the current host and leaves it otherwise.
\<close>

definition clearCookies :: "cookie list \<Rightarrow> cookie list" where
  "clearCookies cs = filter (\<lambda>c. \<not> (authKey (cookie_name c) \<and> hostRootScoped c)) cs"

text \<open>
  \<^verbatim>\<open>clearSupabaseAuth\<close>: the storage pass inside its own try/catch, then
  \<^verbatim>\<open>signOut({scope: 'global'})\<close> whose error is only logged, then the cookie pass. A
  rejected \<^verbatim>\<open>signOut\<close> lands in the outer catch, which skips the cookie pass. Both
  exits return \<^verbatim>\<open>true\<close>.
\<close>

definition clearSupabaseAuth :: "backend \<Rightarrow> browser \<Rightarrow> bool \<times> browser" where
  "clearSupabaseAuth be b =
     (let b1 = (if storageBlocked b then b
                else b\<lparr>localStorage := clearLocalStorage 0 (localStorage b)\<rparr>)
      in case signOut be b1 of
           (Throws m, b2) \<Rightarrow> (True, b2)
         | (Returns err, b2) \<Rightarrow> (True, b2\<lparr>cookies := clearCookies (cookies b2)\<rparr>))"

section \<open>The session bootstrapper (App)\<close>

record app_state =
  user :: "User option"
  loading :: bool
  error :: "string option"
  authChecked :: bool
  connectionRetries :: nat
  forceReset :: bool
  signOutInProgress :: bool

text \<open>
  The first effect: \<^verbatim>\<open>forceClearAuth\<close> raises \<^verbatim>\<open>signOutInProgress\<close>, awaits
  \<^verbatim>\<open>clearSupabaseAuth\<close> and lowers the flag in its \<^verbatim>\<open>finally\<close>. The diagnostic
  list \<^verbatim>\<open>debugInfo\<close> and the console output are only written by the functions
  modelled here, never read, and are left out throughout.
\<close>

definition forceClearAuth :: "backend \<Rightarrow> app_state \<times> browser \<Rightarrow> app_state \<times> browser" where
  "forceClearAuth be w =
     (let st1 = (fst w)\<lparr>signOutInProgress := True\<rparr>;
          b1 = snd (clearSupabaseAuth be (snd w))
      in (st1\<lparr>signOutInProgress := False\<rparr>, b1))"

text \<open>
  \<^verbatim>\<open>initializeAuth\<close>, branch by branch. The \<^verbatim>\<open>finally\<close> block lowers
  \<^verbatim>\<open>loading\<close> on every exit.
\<close>

definition initializeAuth :: "backend \<Rightarrow> app_state \<times> browser \<Rightarrow> app_state \<times> browser" where
  "initializeAuth be w =
     (let st = (fst w)\<lparr>loading := True, error := None\<rparr>; b = snd w in
      case getSession be of
        Throws m \<Rightarrow>
          (st\<lparr>error := Some ''Failed to initialize application'', loading := False\<rparr>, b)
      | Returns (session, sessionError) \<Rightarrow>
          if sessionError \<noteq> None then
            (st\<lparr>error := Some ''Failed to check authentication status'', loading := False\<rparr>, b)
          else if session = None then
            (st\<lparr>user := None, loading := False, authChecked := True\<rparr>, b)
          else
            (case getCurrentUser be of
               Returns None \<Rightarrow>
                 (st\<lparr>user := None, authChecked := True, loading := False\<rparr>,
                  snd (clearSupabaseAuth be b))
             | Returns (Some currentUser) \<Rightarrow>
                 (st\<lparr>user := Some currentUser, authChecked := True, loading := False\<rparr>, b)
             | Throws m \<Rightarrow>
                 (st\<lparr>user := None, authChecked := True, loading := False\<rparr>,
                  snd (clearSupabaseAuth be b))))"

text \<open>
  \<^verbatim>\<open>handleRetry\<close> bumps \<^verbatim>\<open>connectionRetries\<close> and flips \<^verbatim>\<open>forceReset\<close>, which
  re-runs the first effect. The second effect returns at once while
  \<^verbatim>\<open>signOutInProgress\<close> is set and otherwise starts \<^verbatim>\<open>initializeAuth\<close> after
  \<^verbatim>\<open>connectionRetries * 500\<close> milliseconds.
\<close>

definition handleRetry :: "app_state \<Rightarrow> app_state" where
  "handleRetry st = st\<lparr>connectionRetries := connectionRetries st + 1, forceReset := \<not> forceReset st\<rparr>"

definition initDelay :: "app_state \<Rightarrow> nat" where
  "initDelay st = connectionRetries st * 500"

text \<open>
  One boot cycle in the order the \<^verbatim>\<open>signOutInProgress\<close> gate is written for: the
  forced sign-out runs to its end, then the second effect runs once. This is one schedule
  of the component, not the only one: nothing in the source sequences the two effects, the
  timer armed at mount can fire before the re-render that would cancel it, and then
  \<^verbatim>\<open>initializeAuth\<close> runs more than once. Since \<^verbatim>\<open>forceClearAuth\<close> always lowers the
  flag, the test below always takes its second branch. Facts meant for every schedule are
  stated for \<^verbatim>\<open>initializeAuth\<close> from an arbitrary state.
\<close>

definition boot :: "backend \<Rightarrow> app_state \<times> browser \<Rightarrow> app_state \<times> browser" where
  "boot be w =
     (let w1 = forceClearAuth be w in
      if signOutInProgress (fst w1) then w1 else initializeAuth be w1)"

section \<open>The connectivity monitor (components/ConnectionStatus)\<close>

datatype supabase_status = Checking | Connected | Disconnected

record connection_state =
  isOnline :: bool
  supabaseStatus :: supabase_status
  lastChecked :: string
  checkCount :: nat
  errorMessage :: string
  retryAttempts :: nat


definition handleOffline :: "connection_state \<Rightarrow> connection_state" where
  "handleOffline st = st\<lparr>isOnline := False\<rparr>"

text \<open>
  \<^verbatim>\<open>checkSupabaseDB\<close> (lib/supabase): false when the client is not configured, when
  \<^verbatim>\<open>getUser\<close> delivers an error and when it rejects; true otherwise. Its own
  try/catch leaves no way for it to reject.
\<close>

definition checkSupabaseDB :: "backend \<Rightarrow> bool js" where
  "checkSupabaseDB be =
     (if \<not> configured be then Returns False
      else case getUser be of
             Throws m \<Rightarrow> Returns False
           | Returns (data, err) \<Rightarrow> if err \<noteq> None then Returns False else Returns True)"

text \<open>The first check of a probe: \<^verbatim>\<open>getSession\<close> delivered and carried no error.\<close>

definition sessionCheck :: "backend \<Rightarrow> bool" where
  "sessionCheck be =
     (case getSession be of
        Throws m \<Rightarrow> False
      | Returns (data, err) \<Rightarrow> err = None)"

text \<open>The user-facing text chosen from a rejected database check.\<close>

definition dbErrorText :: "string \<Rightarrow> string" where
  "dbErrorText errorMsg =
     (if str_includes errorMsg ''timeout'' then ''The server is taking too long to respond''
      else if str_includes errorMsg ''Failed to fetch'' \<or> str_includes errorMsg ''Unable to reach''
        then ''Cannot connect to the Supabase server''
      else errorMsg)"

definition markConnected :: "connection_state \<Rightarrow> connection_state" where
  "markConnected st = st\<lparr>supabaseStatus := Connected, errorMessage := [], retryAttempts := 0\<rparr>"

text \<open>
  The tail of a probe whose two checks failed. \<^verbatim>\<open>captured\<close> is the
  \<^verbatim>\<open>errorMessage\<close> the callback closed over, which is what \<^verbatim>\<open>if (!errorMessage)\<close>
  reads; \<^verbatim>\<open>now\<close> is \<^verbatim>\<open>new Date().toLocaleTimeString()\<close>.
\<close>

definition markDisconnected :: "string \<Rightarrow> string \<Rightarrow> connection_state \<Rightarrow> connection_state" where
  "markDisconnected captured now st =
     st\<lparr>supabaseStatus := Disconnected,
        errorMessage := (if captured = [] then ''Cannot connect to the database'' else errorMessage st),
        lastChecked := now,
        checkCount := checkCount st + 1\<rparr>"

text \<open>
  \<^verbatim>\<open>checkSupabaseConnection\<close>: offline returns at once; otherwise the session check,
  then the database check, and the first success returns.
\<close>

definition checkSupabaseConnection :: "backend \<Rightarrow> string \<Rightarrow> connection_state \<Rightarrow> connection_state" where
  "checkSupabaseConnection be now st =
     (if \<not> isOnline st then
        st\<lparr>supabaseStatus := Disconnected, errorMessage := ''Your device is offline''\<rparr>
      else
        let st1 = st\<lparr>supabaseStatus := Checking\<rparr> in
        if sessionCheck be then markConnected st1
        else case checkSupabaseDB be of
               Returns connected' \<Rightarrow>
                 if connected' then markConnected st1
                 else markDisconnected (errorMessage st) now st1
             | Throws errorMsg \<Rightarrow>
                 markDisconnected (errorMessage st) now (st1\<lparr>errorMessage := dbErrorText errorMsg\<rparr>))"




text \<open>
  The scheduled probe: the timer callback starts \<^verbatim>\<open>checkSupabaseConnection\<close> and
  increments \<^verbatim>\<open>retryAttempts\<close>. The increment is applied before the probe's awaited
  calls settle, and the probe never reads the counter, so a success still ends at zero.
\<close>

definition scheduledProbe :: "backend \<Rightarrow> string \<Rightarrow> connection_state \<Rightarrow> connection_state" where
  "scheduledProbe be now st =
     checkSupabaseConnection be now (st\<lparr>retryAttempts := retryAttempts st + 1\<rparr>)"

section \<open>The Facebook SDK wrapper (lib/facebookAuth)\<close>

record FacebookAuthResponse =
  accessToken :: string
  expiresIn :: nat
  signedRequest :: string
  userID :: string

datatype fb_status = FbConnected | FbNotAuthorized | FbUnknown | FbError

record FacebookStatusResponse =
  status :: fb_status
  authResponse :: "FacebookAuthResponse option"

datatype 'a promise = Pending | Resolved 'a | Rejected string

text \<open>
  A promise settles once: the first \<^verbatim>\<open>resolve\<close> or \<^verbatim>\<open>reject\<close> wins, and an exception
  thrown by the executor rejects it unless it has settled before.
\<close>

definition settle :: "'a promise \<Rightarrow> 'a promise \<Rightarrow> 'a promise" where
  "settle p q = (if p = Pending then q else p)"

text \<open>
  What one call \<^verbatim>\<open>FB.getLoginStatus(callback)\<close> does, in the order it happens: it may
  hand a response to the callback before it returns, it may throw (an SDK error, or a
  global \<^verbatim>\<open>FB\<close> that has no such method), and it may hand a response to the callback
  later.
\<close>

record getLoginStatus_run =
  calledBackDuring :: "FacebookStatusResponse option"
  thrown :: "string option"
  calledBackLater :: "FacebookStatusResponse option"

text \<open>
  The global \<^verbatim>\<open>FB\<close> is absent (\<^verbatim>\<open>typeof FB === 'undefined'\<close>) or present, and then
  only its \<^verbatim>\<open>getLoginStatus\<close> is used here.
\<close>

datatype fb_sdk = FB getLoginStatus_run

text \<open>
  \<^verbatim>\<open>checkFacebookLoginStatus\<close>: the executor resolves with the error status when
  \<^verbatim>\<open>FB\<close> is absent; otherwise it calls \<^verbatim>\<open>FB.getLoginStatus\<close> with a callback that
  resolves with the response, outside any try/catch. The executor never calls
  \<^verbatim>\<open>reject\<close>.
\<close>

definition checkFacebookLoginStatus :: "fb_sdk option \<Rightarrow> FacebookStatusResponse promise" where
  "checkFacebookLoginStatus fb =
     (case fb of
        None \<Rightarrow> Resolved \<lparr>status = FbError, authResponse = None\<rparr>
      | Some (FB run) \<Rightarrow>
          settle (case calledBackDuring run of None \<Rightarrow> Pending | Some response \<Rightarrow> Resolved response)
            (settle (case thrown run of None \<Rightarrow> Pending | Some m \<Rightarrow> Rejected m)
               (case calledBackLater run of None \<Rightarrow> Pending | Some response \<Rightarrow> Resolved response)))"

section \<open>The OAuth callback pages (pages/FacebookCallback, pages/InstagramCallback)\<close>

datatype callback_status = Processing | Success | Error

text \<open>
  A row of \<^verbatim>\<open>social_connections\<close>. The table's schema is not part of the sources;
  \<^verbatim>\<open>row_id\<close> is the \<^verbatim>\<open>id\<close> column the Facebook page filters its update by.
\<close>

record social_connection =
  row_id :: nat
  user_id :: string
  fb_page_id :: "string option"
  ig_account_id :: "string option"
  access_token :: string
  token_expiry :: string
  refreshed_at :: "string option"

datatype db_call =
    Select string string
  | Update nat
  | Insert string

datatype navigation = Navigate string bool

text \<open>
  What one run of a callback page reads and writes: the component's state, every
  \<^verbatim>\<open>setStatus\<close> in order, the table, the requests sent to it, and the timers armed
  (delay in milliseconds, with the navigation they perform; the flag is \<^verbatim>\<open>replace\<close>).
\<close>

record callback_world =
  cb_status :: callback_status
  cb_error :: "string option"
  cb_processing :: bool
  status_log :: "callback_status list"
  social_connections :: "social_connection list"
  db_calls :: "db_call list"
  timers :: "(nat \<times> navigation) list"

text \<open>
  The inputs of one run besides the backend's \<^verbatim>\<open>getUser\<close>: the query string as
  \<^verbatim>\<open>URLSearchParams\<close> parses it, the error (if any) each table request comes back with,
  and the clock and random values the page draws
  (\<^verbatim>\<open>expiryDate.toISOString()\<close>, \<^verbatim>\<open>new Date().toISOString()\<close>, \<^verbatim>\<open>Date.now()\<close>,
  \<^verbatim>\<open>Math.floor(Math.random() * 1000000000)\<close>).
\<close>

record request_env =
  search :: "(string \<times> string) list"
  selectError :: "string option"
  updateError :: "string option"
  insertError :: "string option"
  expiryIso :: string
  nowIso :: string
  nowMs :: nat
  randomId :: nat

text \<open>\<^verbatim>\<open>params.get(name)\<close>: the first value under the name, or null.\<close>

definition getParam :: "(string \<times> string) list \<Rightarrow> string \<Rightarrow> string option" where
  "getParam params name = map_of params name"

text \<open>
  The table service, which is outside the repository: a request that comes back with an
  error changes nothing; \<^verbatim>\<open>select\<close> with two \<^verbatim>\<open>eq\<close> filters delivers the matching
  rows in table order; \<^verbatim>\<open>update ... eq('id', i)\<close> rewrites the rows whose id is
  \<^verbatim>\<open>i\<close>; \<^verbatim>\<open>insert\<close> appends one row under an id not in use. No uniqueness
  constraint beyond the id is assumed.
\<close>

definition selectConnections :: "string \<Rightarrow> string \<Rightarrow> social_connection list \<Rightarrow> social_connection list" where
  "selectConnections u p tbl = filter (\<lambda>r. user_id r = u \<and> fb_page_id r = Some p) tbl"

definition updateConnection ::
  "nat \<Rightarrow> (social_connection \<Rightarrow> social_connection) \<Rightarrow> social_connection list \<Rightarrow> social_connection list" where
  "updateConnection i f tbl = map (\<lambda>r. if row_id r = i then f r else r) tbl"

definition nextId :: "social_connection list \<Rightarrow> nat" where
  "nextId tbl = Suc (fold max (map row_id tbl) 0)"

definition insertConnection :: "social_connection \<Rightarrow> social_connection list \<Rightarrow> social_connection list" where
  "insertConnection r tbl = tbl @ [r\<lparr>row_id := nextId tbl\<rparr>]"

definition setStatus :: "callback_status \<Rightarrow> callback_world \<Rightarrow> callback_world" where
  "setStatus s w = w\<lparr>cb_status := s, status_log := status_log w @ [s]\<rparr>"

text \<open>
  The success tail shared by both pages: \<^verbatim>\<open>setStatus('success')\<close>, then
  \<^verbatim>\<open>setTimeout(() => navigate('/settings', { replace: true }), 2000)\<close>.
\<close>

definition redirectToSettings :: "callback_world \<Rightarrow> callback_world" where
  "redirectToSettings w =
     (setStatus Success w)\<lparr>timers := timers w @ [(2000, Navigate ''/settings'' True)]\<rparr>"

subsection \<open>Facebook\<close>

record facebook_page =
  page_id :: string
  page_name :: string
  page_access_token :: string
  category :: string

definition mockPages :: "facebook_page list" where
  "mockPages =
     [\<lparr>page_id = ''540380515830720'', page_name = ''Test Page'',
       page_access_token = ''EAATk...'', category = ''Business''\<rparr>]"

definition mockToken :: string where
  "mockToken = ''EAATk...mockToken123456789''"

definition refreshToken :: "request_env \<Rightarrow> social_connection \<Rightarrow> social_connection" where
  "refreshToken rq r =
     r\<lparr>access_token := mockToken, token_expiry := expiryIso rq, refreshed_at := Some (nowIso rq)\<rparr>"

definition newFacebookRow :: "request_env \<Rightarrow> string \<Rightarrow> string \<Rightarrow> social_connection" where
  "newFacebookRow rq u p =
     \<lparr>row_id = 0, user_id = u, fb_page_id = Some p, ig_account_id = None,
      access_token = mockToken, token_expiry = expiryIso rq, refreshed_at = None\<rparr>"

text \<open>
  The inner \<^verbatim>\<open>try\<close> block of \<^verbatim>\<open>handleFacebookCallback\<close>. The first component is the
  message of the error thrown, if one was; the world carries what was done before it.
\<close>

definition storeFacebookConnection ::
  "request_env \<Rightarrow> User \<Rightarrow> callback_world \<Rightarrow> string option \<times> callback_world" where
  "storeFacebookConnection rq u w =
     (case mockPages of
        [] \<Rightarrow> (Some ''No Facebook pages found with manage permission'', w)
      | selectedPage # _ \<Rightarrow>
          let w1 = w\<lparr>db_calls := db_calls w @ [Select (uid u) (page_id selectedPage)]\<rparr> in
          case selectError rq of
            Some m \<Rightarrow> (Some m, w1)
          | None \<Rightarrow>
              (case selectConnections (uid u) (page_id selectedPage) (social_connections w1) of
                 existing # _ \<Rightarrow>
                   let w2 = w1\<lparr>db_calls := db_calls w1 @ [Update (row_id existing)]\<rparr> in
                   (case updateError rq of
                      Some m \<Rightarrow> (Some m, w2)
                    | None \<Rightarrow>
                        (None, redirectToSettings
                           (w2\<lparr>social_connections :=
                                 updateConnection (row_id existing) (refreshToken rq)
                                   (social_connections w2)\<rparr>)))
               | [] \<Rightarrow>
                   let w2 = w1\<lparr>db_calls := db_calls w1 @ [Insert (uid u)]\<rparr> in
                   (case insertError rq of
                      Some m \<Rightarrow> (Some m, w2)
                    | None \<Rightarrow>
                        (None, redirectToSettings
                           (w2\<lparr>social_connections :=
                                 insertConnection (newFacebookRow rq (uid u) (page_id selectedPage))
                                   (social_connections w2)\<rparr>)))))"

definition failFacebook :: "callback_world \<Rightarrow> callback_world" where
  "failFacebook w =
     (setStatus Error
        (w\<lparr>cb_error := Some ''Failed to connect your Facebook account. Please try again.''\<rparr>))
      \<lparr>cb_processing := False\<rparr>"

text \<open>
  \<^verbatim>\<open>handleFacebookCallback\<close>: every throw, the rethrow of the inner catch included,
  ends in the outer catch.
\<close>

definition handleFacebookCallback :: "backend \<Rightarrow> request_env \<Rightarrow> callback_world \<Rightarrow> callback_world" where
  "handleFacebookCallback be rq w =
     (case getParam (search rq) ''code'' of
        None \<Rightarrow> failFacebook w
      | Some code \<Rightarrow>
          if code = [] then failFacebook w
          else
            let w1 = setStatus Processing w in
            case getUser be of
              Throws m \<Rightarrow> failFacebook w1
            | Returns (userData, userError) \<Rightarrow>
                if userError \<noteq> None then failFacebook w1
                else
                  (case userData of
                     None \<Rightarrow> failFacebook w1
                   | Some u \<Rightarrow>
                       (case storeFacebookConnection rq u w1 of
                          (Some m, w2) \<Rightarrow> failFacebook w2
                        | (None, w2) \<Rightarrow> w2)))"

subsection \<open>Instagram\<close>

definition newInstagramRow :: "request_env \<Rightarrow> string \<Rightarrow> social_connection" where
  "newInstagramRow rq u =
     \<lparr>row_id = 0, user_id = u, fb_page_id = None,
      ig_account_id = Some (''ig_business_'' @ string_of_nat (randomId rq)),
      access_token = ''ig_token_'' @ string_of_nat (nowMs rq),
      token_expiry = expiryIso rq, refreshed_at = None\<rparr>"

definition storeInstagramConnection ::
  "request_env \<Rightarrow> User \<Rightarrow> callback_world \<Rightarrow> string option \<times> callback_world" where
  "storeInstagramConnection rq u w =
     (let w1 = w\<lparr>db_calls := db_calls w @ [Insert (uid u)]\<rparr> in
      case insertError rq of
        Some m \<Rightarrow> (Some m, w1)
      | None \<Rightarrow>
          (None, redirectToSettings
             (w1\<lparr>social_connections :=
                   insertConnection (newInstagramRow rq (uid u)) (social_connections w1)\<rparr>)))"

definition failInstagram :: "callback_world \<Rightarrow> callback_world" where
  "failInstagram w =
     (setStatus Error
        (w\<lparr>cb_error := Some ''Failed to connect your Instagram account. Please try again.''\<rparr>))
      \<lparr>cb_processing := False\<rparr>"

text \<open>
  \<^verbatim>\<open>handleInstagramCallback\<close>: the error field of \<^verbatim>\<open>getUser\<close> is not read, only
  \<^verbatim>\<open>userData.user\<close>.
\<close>

definition handleInstagramCallback :: "backend \<Rightarrow> request_env \<Rightarrow> callback_world \<Rightarrow> callback_world" where
  "handleInstagramCallback be rq w =
     (case getParam (search rq) ''code'' of
        None \<Rightarrow> failInstagram w
      | Some code \<Rightarrow>
          if code = [] then failInstagram w
          else
            let w1 = setStatus Processing w in
            case getUser be of
              Throws m \<Rightarrow> failInstagram w1
            | Returns (userData, userError) \<Rightarrow>
                (case userData of
                   None \<Rightarrow> failInstagram w1
                 | Some u \<Rightarrow>
                     (case storeInstagramConnection rq u w1 of
                        (Some m, w2) \<Rightarrow> failInstagram w2
                      | (None, w2) \<Rightarrow> w2)))"

subsection \<open>Sequences of callback runs over one table\<close>

datatype provider = Facebook | Instagram

text \<open>A freshly mounted callback page over the table as it stands.\<close>

definition mountCallback :: "social_connection list \<Rightarrow> callback_world" where
  "mountCallback tbl =
     \<lparr>cb_status = Processing, cb_error = None, cb_processing = True, status_log = [],
      social_connections = tbl, db_calls = [], timers = []\<rparr>"

definition runCallback :: "provider \<Rightarrow> backend \<Rightarrow> request_env \<Rightarrow> callback_world \<Rightarrow> callback_world" where
  "runCallback p be rq w =
     (case p of
        Facebook \<Rightarrow> handleFacebookCallback be rq w
      | Instagram \<Rightarrow> handleInstagramCallback be rq w)"

fun completions ::
  "(provider \<times> backend \<times> request_env) list \<Rightarrow> social_connection list \<Rightarrow> social_connection list" where
  "completions [] tbl = tbl"
| "completions ((p, be, rq) # cbs) tbl =
     completions cbs (social_connections (runCallback p be rq (mountCallback tbl)))"

text \<open>
  At most one row per (user, Facebook page), per (user, Instagram account), and both.
\<close>

definition facebookPairs :: "social_connection list \<Rightarrow> (string \<times> string) list" where
  "facebookPairs tbl = List.map_filter (\<lambda>r. map_option (Pair (user_id r)) (fb_page_id r)) tbl"

definition instagramPairs :: "social_connection list \<Rightarrow> (string \<times> string) list" where
  "instagramPairs tbl = List.map_filter (\<lambda>r. map_option (Pair (user_id r)) (ig_account_id r)) tbl"

definition onePerFacebookPage :: "social_connection list \<Rightarrow> bool" where
  "onePerFacebookPage tbl = distinct (facebookPairs tbl)"

definition onePerAccount :: "social_connection list \<Rightarrow> bool" where
  "onePerAccount tbl = (distinct (facebookPairs tbl) \<and> distinct (instagramPairs tbl))"

section \<open>Concrete inputs used to run the model\<close>

text \<open>
  A configured backend that holds a session while the network is down: \<^verbatim>\<open>getSession\<close>
  reads the stored session, every request that needs the network fails, and
  \<^verbatim>\<open>signOut\<close> delivers an error and leaves the stores alone.
\<close>

definition unreachableBackend :: backend where
  "unreachableBackend =
     \<lparr>configured = True,
      getSession = Returns (Some \<lparr>subject = ''u1'', session_email = Some ''ann@example.org''\<rparr>, None),
      getUser = Throws ''Failed to fetch'',
      signOut = (\<lambda>b. (Returns (Some ''Failed to fetch''), b)),
      getCurrentUser = Throws ''Failed to fetch''\<rparr>"

text \<open>A reachable backend with a signed-in user, and one with nobody signed in.\<close>

definition ann :: User where
  "ann = \<lparr>uid = ''u1'', email = Some ''ann@example.org'', role = ''user''\<rparr>"

definition signedInBackend :: backend where
  "signedInBackend =
     \<lparr>configured = True,
      getSession = Returns (Some \<lparr>subject = ''u1'', session_email = Some ''ann@example.org''\<rparr>, None),
      getUser = Returns (Some ann, None),
      signOut = (\<lambda>b. (Returns None, b\<lparr>localStorage := removeItem ''sb-proj-auth-token'' (localStorage b)\<rparr>)),
      getCurrentUser = Returns (Some ann)\<rparr>"

definition signedOutBackend :: backend where
  "signedOutBackend =
     \<lparr>configured = True,
      getSession = Returns (None, None),
      getUser = Returns (None, Some ''Auth session missing!''),
      signOut = (\<lambda>b. (Returns None, b)),
      getCurrentUser = Returns None\<rparr>"

definition freshApp :: app_state where
  "freshApp =
     \<lparr>user = None, loading = True, error = None, authChecked = False,
      connectionRetries = 0, forceReset = False, signOutInProgress = False\<rparr>"

text \<open>
  A browser whose \<^verbatim>\<open>localStorage\<close> holds four auth keys in a row (an origin shared by
  several projects), listed in ascending key order.
\<close>

definition crowdedBrowser :: browser where
  "crowdedBrowser =
     \<lparr>localStorage =
        [(''sb-alpha-auth-token'', ''other project''),
         (''sb-beta-auth-token'', ''other project''),
         (''sb-gamma-auth-token'', ''other project''),
         (''sb-proj-auth-token'', ''session'')],
      cookies = [], storageBlocked = False\<rparr>"

definition emptyBrowser :: browser where
  "emptyBrowser = \<lparr>localStorage = [], cookies = [], storageBlocked = False\<rparr>"

definition failingMonitor :: connection_state where
  "failingMonitor =
     \<lparr>isOnline = True, supabaseStatus = Disconnected, lastChecked = ''10:00:00'',
      checkCount = 3, errorMessage = ''Cannot connect to the database'', retryAttempts = 3\<rparr>"

definition callbackRequest :: request_env where
  "callbackRequest =
     \<lparr>search = [(''code'', ''AQB1'')], selectError = None, updateError = None, insertError = None,
      expiryIso = ''2025-03-02T10:00:00.000Z'', nowIso = ''2025-01-01T10:00:00.000Z'',
      nowMs = 1735725600000, randomId = 42\<rparr>"

definition connectedPage :: social_connection where
  "connectedPage =
     \<lparr>row_id = 7, user_id = ''u1'', fb_page_id = Some ''540380515830720'', ig_account_id = None,
      access_token = ''old'', token_expiry = ''2024-12-01T10:00:00.000Z'', refreshed_at = None\<rparr>"

text \<open>A logged-out answer of the SDK, and three ways a loaded SDK can behave.\<close>

definition loggedOut :: FacebookStatusResponse where
  "loggedOut = \<lparr>status = FbUnknown, authResponse = None\<rparr>"

definition answeringSdk :: fb_sdk where
  "answeringSdk = FB \<lparr>calledBackDuring = None, thrown = None, calledBackLater = Some loggedOut\<rparr>"

definition silentSdk :: fb_sdk where
  "silentSdk = FB \<lparr>calledBackDuring = None, thrown = None, calledBackLater = None\<rparr>"

definition brokenSdk :: fb_sdk where
  "brokenSdk =
     FB \<lparr>calledBackDuring = None, thrown = Some ''FB.getLoginStatus is not a function'',
         calledBackLater = None\<rparr>"

declare clearLocalStorage.simps [simp del]
declare string_of_nat.simps [simp del]

section \<open>Facts about the model\<close>

subsection \<open>Helper lemmas\<close>

lemma checkSupabaseDB_returns: "checkSupabaseDB be \<noteq> Throws m"
  by (simp add: checkSupabaseDB_def split: js.splits prod.splits)

lemma updateConnection_nth:
  assumes "distinct (map row_id tbl)" and "i < length tbl"
  shows "updateConnection (row_id (tbl ! i)) f tbl = tbl[i := f (tbl ! i)]"
proof (rule nth_equalityI)
  show "length (updateConnection (row_id (tbl ! i)) f tbl) = length (tbl[i := f (tbl ! i)])"
    by (simp add: updateConnection_def)
next
  fix j assume "j < length (updateConnection (row_id (tbl ! i)) f tbl)"
  then have j: "j < length tbl" by (simp add: updateConnection_def)
  have "(row_id (tbl ! j) = row_id (tbl ! i)) = (j = i)"
    using assms j nth_eq_iff_index_eq[of "map row_id tbl" j i] by simp
  then show "updateConnection (row_id (tbl ! i)) f tbl ! j = tbl[i := f (tbl ! i)] ! j"
    using j assms(2) by (auto simp: updateConnection_def nth_list_update)
qed

lemma select_first:
  assumes "selectConnections u p tbl = existing # rest"
  shows "\<exists>i<length tbl. tbl ! i = existing \<and> user_id existing = u \<and> fb_page_id existing = Some p"
proof -
  from assms obtain us vs where "tbl = us @ existing # vs"
    "user_id existing = u \<and> fb_page_id existing = Some p"
    unfolding selectConnections_def filter_eq_Cons_iff by blast
  then show ?thesis by (intro exI[of _ "length us"]) simp
qed

lemma storeFacebook_ok:
  assumes "selectError rq = None"
      and "case selectConnections (uid u) ''540380515830720'' (social_connections w) of
             [] \<Rightarrow> insertError rq = None | existing # rest \<Rightarrow> updateError rq = None"
  shows "\<exists>w2. storeFacebookConnection rq u w = (None, w2)
           \<and> cb_status w2 = Success
           \<and> status_log w2 = status_log w @ [Success]
           \<and> timers w2 = timers w @ [(2000, Navigate ''/settings'' True)]"
  using assms
  by (auto simp: storeFacebookConnection_def mockPages_def redirectToSettings_def setStatus_def Let_def
      split: list.splits)

lemma facebookPairs_update:
  "facebookPairs (updateConnection i (refreshToken rq) tbl) = facebookPairs tbl"
  by (induction tbl)
     (auto simp: facebookPairs_def updateConnection_def refreshToken_def List.map_filter_simps
           split: option.splits)

lemma facebookPairs_append:
  "facebookPairs (xs @ ys) = facebookPairs xs @ facebookPairs ys"
  by (simp add: facebookPairs_def map_filter_def)

lemma facebookPairs_insert:
  "facebookPairs (insertConnection r tbl) =
     facebookPairs tbl @ (case fb_page_id r of None \<Rightarrow> [] | Some p \<Rightarrow> [(user_id r, p)])"
  by (simp add: insertConnection_def facebookPairs_append)
     (simp add: facebookPairs_def List.map_filter_simps split: option.splits)

lemma select_none_fresh:
  "selectConnections u p tbl = [] \<Longrightarrow> (u, p) \<notin> set (facebookPairs tbl)"
  by (auto simp: selectConnections_def facebookPairs_def map_filter_def filter_empty_conv)

lemma storeFacebook_keeps:
  assumes "onePerFacebookPage (social_connections w)"
      and "storeFacebookConnection rq u w = (e, w2)"
  shows "onePerFacebookPage (social_connections w2)"
  using assms
  by (auto simp: storeFacebookConnection_def mockPages_def Let_def onePerFacebookPage_def
        redirectToSettings_def setStatus_def facebookPairs_update facebookPairs_insert
        newFacebookRow_def dest: select_none_fresh
        split: list.splits option.splits)

lemma handleFacebook_keeps:
  assumes "onePerFacebookPage (social_connections w)"
  shows "onePerFacebookPage (social_connections (handleFacebookCallback be rq w))"
proof -
  have s: "onePerFacebookPage (social_connections (setStatus Processing w))"
    using assms by (simp add: setStatus_def)
  have f: "\<And>w'. social_connections (failFacebook w') = social_connections w'"
    by (simp add: failFacebook_def setStatus_def)
  show ?thesis
    using assms s storeFacebook_keeps[OF s]
    by (auto simp: handleFacebookCallback_def Let_def f
        split: option.splits js.splits prod.splits)
qed

lemma handleInstagram_keeps:
  assumes "onePerFacebookPage (social_connections w)"
  shows "onePerFacebookPage (social_connections (handleInstagramCallback be rq w))"
  using assms
  by (auto simp: handleInstagramCallback_def storeInstagramConnection_def Let_def
        failInstagram_def setStatus_def redirectToSettings_def onePerFacebookPage_def
        facebookPairs_insert newInstagramRow_def
        split: option.splits js.splits prod.splits)

lemma crowded_sweep_once:
  "clearLocalStorage 0
     [(''sb-alpha-auth-token'', ''other project''),
      (''sb-beta-auth-token'', ''other project''),
      (''sb-gamma-auth-token'', ''other project''),
      (''sb-proj-auth-token'', ''session'')] =
     [(''sb-beta-auth-token'', ''other project''), (''sb-proj-auth-token'', ''session'')]"
  by (simp add: clearLocalStorage.simps authKey_def removeItem_def)

lemma crowded_sweep_twice:
  "clearLocalStorage 0
     [(''sb-beta-auth-token'', ''other project''), (''sb-proj-auth-token'', ''session'')] =
     [(''sb-proj-auth-token'', ''session'')]"
  by (simp add: clearLocalStorage.simps authKey_def removeItem_def)

lemma crowded_sweep_thrice:
  "clearLocalStorage 0 [(''sb-proj-auth-token'', ''session'')] = []"
  by (simp add: clearLocalStorage.simps authKey_def removeItem_def)

lemma authKey_nonempty: "authKey k \<Longrightarrow> k \<noteq> []"
  by (auto simp: authKey_def)

lemma removeItem_nth:
  assumes "distinct (map fst ls)" and "i < length ls"
  shows "removeItem (fst (ls ! i)) ls = take i ls @ drop (Suc i) ls"
proof -
  have split: "ls = take i ls @ ls ! i # drop (Suc i) ls"
    using assms(2) by (simp add: id_take_nth_drop)
  have d: "distinct (map fst (take i ls @ ls ! i # drop (Suc i) ls))"
    using assms(1) split by simp
  have a: "\<forall>e \<in> set (take i ls). fst e \<noteq> fst (ls ! i)"
    using d by (auto simp: image_iff)
  have b: "\<forall>e \<in> set (drop (Suc i) ls). fst e \<noteq> fst (ls ! i)"
    using d by (auto simp: image_iff)
  have "removeItem (fst (ls ! i)) (take i ls @ ls ! i # drop (Suc i) ls) = take i ls @ drop (Suc i) ls"
    using a b by (simp add: removeItem_def filter_id_conv)
  then show ?thesis using split by simp
qed

lemma noAdjacent_tl: "noAdjacentAuthKeys (a # rest) \<Longrightarrow> noAdjacentAuthKeys rest"
  by (cases rest) auto

lemma noAdjacent_drop: "noAdjacentAuthKeys ls \<Longrightarrow> noAdjacentAuthKeys (drop k ls)"
proof (induction k arbitrary: ls)
  case 0 then show ?case by simp
next
  case (Suc k)
  then show ?case by (cases ls) (auto dest: noAdjacent_tl)
qed

lemma clearLocalStorage_general:
  assumes "distinct (map fst ls)"
      and "\<forall>j<i. j < length ls \<longrightarrow> \<not> authKey (fst (ls ! j))"
      and "noAdjacentAuthKeys (drop i ls)"
  shows "filter (\<lambda>e. authKey (fst e)) (clearLocalStorage i ls) = []"
  using assms
proof (induction i ls rule: clearLocalStorage.induct)
  case (1 i ls)
  show ?case
  proof (cases "i < length ls")
    case False
    then have "clearLocalStorage i ls = ls" by (simp add: clearLocalStorage.simps)
    moreover have "\<forall>e \<in> set ls. \<not> authKey (fst e)"
    proof
      fix e assume "e \<in> set ls"
      then obtain k where k: "k < length ls" "ls ! k = e" by (auto simp: in_set_conv_nth)
      then have "k < i" using False by simp
      then show "\<not> authKey (fst e)" using "1.prems"(2) k by blast
    qed
    ultimately show ?thesis by (simp add: filter_empty_conv)
  next
    case True
    show ?thesis
    proof (cases "authKey (fst (ls ! i))")
      case False
      have step: "clearLocalStorage i ls = clearLocalStorage (i + 1) ls"
        using True False by (subst clearLocalStorage.simps) simp
      have p2: "\<forall>j<i + 1. j < length ls \<longrightarrow> \<not> authKey (fst (ls ! j))"
        using "1.prems"(2) False by (auto simp: less_Suc_eq)
      have p3: "noAdjacentAuthKeys (drop (i + 1) ls)"
        using noAdjacent_drop[OF "1.prems"(3), of 1] by simp
      show ?thesis
        unfolding step using "1.IH"(2)[OF True _ "1.prems"(1) p2 p3] False by simp
    next
      case auth: True
      let ?ls' = "removeItem (fst (ls ! i)) ls"
      have rm: "?ls' = take i ls @ drop (Suc i) ls"
        using removeItem_nth[OF "1.prems"(1) True] .
      have step: "clearLocalStorage i ls = clearLocalStorage (i + 1) ?ls'"
        using True auth authKey_nonempty by (subst clearLocalStorage.simps) simp
      have p1: "distinct (map fst ?ls')"
        by (simp add: removeItem_def distinct_map_filter "1.prems"(1))
      have next_ok: "Suc i < length ls \<Longrightarrow> \<not> authKey (fst (ls ! Suc i))"
      proof -
        assume s: "Suc i < length ls"
        then have "drop i ls = ls ! i # ls ! Suc i # drop (Suc (Suc i)) ls"
          using True by (simp add: Cons_nth_drop_Suc)
        then show ?thesis using "1.prems"(3) auth by simp
      qed
      have p2: "\<forall>j<i + 1. j < length ?ls' \<longrightarrow> \<not> authKey (fst (?ls' ! j))"
      proof (intro allI impI)
        fix j assume j: "j < i + 1" "j < length ?ls'"
        show "\<not> authKey (fst (?ls' ! j))"
        proof (cases "j < i")
          case True
          then show ?thesis using "1.prems"(2) \<open>i < length ls\<close> unfolding rm
            by (simp add: nth_append)
        next
          case False
          then have ji: "j = i" using j by simp
          have len: "Suc i < length ls" using j(2) True unfolding rm ji by simp
          have "?ls' ! i = ls ! Suc i" unfolding rm using True len by (simp add: nth_append)
          then show ?thesis using next_ok[OF len] ji by simp
        qed
      qed
      have "drop (i + 1) ?ls' = drop (i + 2) ls"
        unfolding rm using True by (simp add: min_def)
      then have p3: "noAdjacentAuthKeys (drop (i + 1) ?ls')"
        using noAdjacent_drop[OF "1.prems"(3), of 2] by simp
      show ?thesis
        unfolding step using "1.IH"(1)[OF True _ p1 p2 p3] auth authKey_nonempty by simp
    qed
  qed
qed

lemma clearLocalStorage_prefix:
  assumes "distinct (map fst ls)" and "i \<le> length ls"
  shows "take i (clearLocalStorage i ls) = take i ls"
  using assms
proof (induction i ls rule: clearLocalStorage.induct)
  case (1 i ls)
  show ?case
  proof (cases "i < length ls")
    case False
    then show ?thesis by (simp add: clearLocalStorage.simps)
  next
    case True
    show ?thesis
    proof (cases "authKey (fst (ls ! i))")
      case False
      have step: "clearLocalStorage i ls = clearLocalStorage (i + 1) ls"
        using True False by (subst clearLocalStorage.simps) simp
      have "take (i + 1) (clearLocalStorage (i + 1) ls) = take (i + 1) ls"
        using "1.IH"(2)[OF True _ "1.prems"(1)] True False by simp
      then have "take i (take (i + 1) (clearLocalStorage (i + 1) ls)) = take i (take (i + 1) ls)"
        by simp
      then show ?thesis unfolding step by (simp add: min_def)
    next
      case auth: True
      let ?ls' = "removeItem (fst (ls ! i)) ls"
      have rm: "?ls' = take i ls @ drop (Suc i) ls"
        using removeItem_nth[OF "1.prems"(1) True] .
      have step: "clearLocalStorage i ls = clearLocalStorage (i + 1) ?ls'"
        using True auth authKey_nonempty by (subst clearLocalStorage.simps) simp
      have p1: "distinct (map fst ?ls')"
        by (simp add: removeItem_def distinct_map_filter "1.prems"(1))
      have pre: "take i ?ls' = take i ls"
        unfolding rm using True by simp
      show ?thesis
      proof (cases "i + 1 \<le> length ?ls'")
        case True
        have "take (i + 1) (clearLocalStorage (i + 1) ?ls') = take (i + 1) ?ls'"
          using "1.IH"(1)[OF \<open>i < length ls\<close> _ p1 True] auth authKey_nonempty by simp
        then have "take i (take (i + 1) (clearLocalStorage (i + 1) ?ls')) = take i (take (i + 1) ?ls')"
          by simp
        then show ?thesis unfolding step using pre by (simp add: min_def)
      next
        case False
        then have "clearLocalStorage (i + 1) ?ls' = ?ls'"
          by (simp add: clearLocalStorage.simps)
        then show ?thesis unfolding step using pre by simp
      qed
    qed
  qed
qed

subsection \<open>The connectivity monitor\<close>

text \<open>
  C2. A probe run while the browser is online ends with the backend status
  \<^verbatim>\<open>connected\<close> when the session check or the fallback \<^verbatim>\<open>checkSupabaseDB\<close> succeeds,
  and with \<^verbatim>\<open>disconnected\<close> exactly when both fail.
\<close>

theorem probe_connected_iff_a_check_succeeds:
  assumes "isOnline st"
  shows "supabaseStatus (checkSupabaseConnection be now st) =
           (if sessionCheck be \<or> checkSupabaseDB be = Returns True then Connected else Disconnected)"
  using assms checkSupabaseDB_returns[of be]
  by (auto simp: checkSupabaseConnection_def markConnected_def markDisconnected_def Let_def
           split: js.splits)

theorem probe_connected_iff_a_check_succeeds_witness:
  "isOnline failingMonitor
   \<and> \<not> sessionCheck (unreachableBackend\<lparr>getSession := Throws ''Failed to fetch''\<rparr>)
   \<and> checkSupabaseDB (unreachableBackend\<lparr>getSession := Throws ''Failed to fetch''\<rparr>) = Returns False
   \<and> supabaseStatus (checkSupabaseConnection (unreachableBackend\<lparr>getSession := Throws ''Failed to fetch''\<rparr>)
        ''10:00:05'' failingMonitor) = Disconnected
   \<and> sessionCheck signedInBackend
   \<and> supabaseStatus (checkSupabaseConnection signedInBackend ''10:00:05'' failingMonitor) = Connected
   \<and> \<not> sessionCheck (signedInBackend\<lparr>getSession := Throws ''timeout''\<rparr>)
   \<and> checkSupabaseDB (signedInBackend\<lparr>getSession := Throws ''timeout''\<rparr>) = Returns True
   \<and> supabaseStatus (checkSupabaseConnection (signedInBackend\<lparr>getSession := Throws ''timeout''\<rparr>)
        ''10:00:05'' failingMonitor) = Connected"
proof -
  have on: "isOnline failingMonitor" by (simp add: failingMonitor_def)
  show ?thesis
    using on
      probe_connected_iff_a_check_succeeds[OF on,
        of "unreachableBackend\<lparr>getSession := Throws ''Failed to fetch''\<rparr>" "''10:00:05''"]
      probe_connected_iff_a_check_succeeds[OF on, of signedInBackend "''10:00:05''"]
      probe_connected_iff_a_check_succeeds[OF on,
        of "signedInBackend\<lparr>getSession := Throws ''timeout''\<rparr>" "''10:00:05''"]
    by (simp add: sessionCheck_def checkSupabaseDB_def unreachableBackend_def signedInBackend_def)
qed




subsection \<open>The session bootstrapper\<close>

text \<open>
  C7. When \<^verbatim>\<open>getSession\<close> delivers no error and no session, \<^verbatim>\<open>initializeAuth\<close>, and
  so the boot cycle, ends with \<^verbatim>\<open>user = null\<close>, \<^verbatim>\<open>authChecked = true\<close>,
  \<^verbatim>\<open>error = null\<close> and \<^verbatim>\<open>loading = false\<close>, whatever the state it started from.
\<close>

theorem no_session_ends_ready_without_error:
  assumes "getSession be = Returns (None, None)"
  shows "user (fst (initializeAuth be w)) = None
       \<and> authChecked (fst (initializeAuth be w))
       \<and> error (fst (initializeAuth be w)) = None
       \<and> \<not> loading (fst (initializeAuth be w))
       \<and> user (fst (boot be w)) = None
       \<and> authChecked (fst (boot be w))
       \<and> error (fst (boot be w)) = None
       \<and> \<not> loading (fst (boot be w))"
  using assms by (simp add: initializeAuth_def boot_def forceClearAuth_def Let_def)

theorem no_session_ends_ready_without_error_witness:
  "getSession signedOutBackend = Returns (None, None)
   \<and> fst (boot signedOutBackend
        (freshApp\<lparr>user := Some ann, error := Some ''Failed to check authentication status''\<rparr>,
         crowdedBrowser)) =
       freshApp\<lparr>loading := False, authChecked := True\<rparr>"
proof -
  have s: "getSession signedOutBackend = Returns (None, None)"
    by (simp add: signedOutBackend_def)
  show ?thesis
    using s no_session_ends_ready_without_error[OF s,
        of "(freshApp\<lparr>user := Some ann, error := Some ''Failed to check authentication status''\<rparr>,
             crowdedBrowser)"]
    by (simp add: boot_def forceClearAuth_def initializeAuth_def freshApp_def Let_def)
qed

text \<open>
  C8, evaluated where it fails. The backend holds a session and cannot be reached, so
  user resolution rejects and \<^verbatim>\<open>signOut\<close> delivers an error; \<^verbatim>\<open>localStorage\<close> holds
  four auth keys in a row. The boot cycle ends with \<^verbatim>\<open>user = null\<close> and
  \<^verbatim>\<open>authChecked = true\<close>, yet the key \<^verbatim>\<open>sb-proj-auth-token\<close> is still stored: each
  pass of the removal loop steps over the entry that slides into the index it has just
  emptied. A second boot removes it, so the stores after one and after two boots differ.
  Run on its own over two neighbouring auth keys, \<^verbatim>\<open>initializeAuth\<close> leaves the second.
\<close>

theorem invalid_session_boot_leaves_auth_key:
  "user (fst (boot unreachableBackend (freshApp, crowdedBrowser))) = None
   \<and> authChecked (fst (boot unreachableBackend (freshApp, crowdedBrowser)))
   \<and> localStorage (snd (boot unreachableBackend (freshApp, crowdedBrowser))) =
       [(''sb-proj-auth-token'', ''session'')]
   \<and> authKey ''sb-proj-auth-token''
   \<and> localStorage (snd (boot unreachableBackend (boot unreachableBackend (freshApp, crowdedBrowser)))) = []
   \<and> localStorage (snd (initializeAuth unreachableBackend
        (freshApp,
         \<lparr>localStorage =
            [(''sb-beta-auth-token'', ''other project''), (''sb-proj-auth-token'', ''session'')],
          cookies = [], storageBlocked = False\<rparr>))) =
       [(''sb-proj-auth-token'', ''session'')]"
proof -
  have alone: "localStorage (snd (initializeAuth unreachableBackend
        (freshApp,
         \<lparr>localStorage =
            [(''sb-beta-auth-token'', ''other project''), (''sb-proj-auth-token'', ''session'')],
          cookies = [], storageBlocked = False\<rparr>))) =
       [(''sb-proj-auth-token'', ''session'')]"
    by (simp add: initializeAuth_def clearSupabaseAuth_def unreachableBackend_def freshApp_def
          clearCookies_def crowded_sweep_twice)
  have once: "forceClearAuth unreachableBackend (freshApp, crowdedBrowser) =
      (freshApp,
       \<lparr>localStorage =
          [(''sb-beta-auth-token'', ''other project''), (''sb-proj-auth-token'', ''session'')],
        cookies = [], storageBlocked = False\<rparr>)"
    by (simp add: forceClearAuth_def clearSupabaseAuth_def unreachableBackend_def freshApp_def
          crowdedBrowser_def clearCookies_def crowded_sweep_once)
  have first_boot: "boot unreachableBackend (freshApp, crowdedBrowser) =
      (freshApp\<lparr>loading := False, authChecked := True\<rparr>,
       \<lparr>localStorage = [(''sb-proj-auth-token'', ''session'')], cookies = [], storageBlocked = False\<rparr>)"
    unfolding boot_def once
    by (simp add: initializeAuth_def clearSupabaseAuth_def unreachableBackend_def freshApp_def
          clearCookies_def crowded_sweep_twice)
  have again: "forceClearAuth unreachableBackend
       (freshApp\<lparr>loading := False, authChecked := True\<rparr>,
        \<lparr>localStorage = [(''sb-proj-auth-token'', ''session'')], cookies = [], storageBlocked = False\<rparr>) =
      (freshApp\<lparr>loading := False, authChecked := True\<rparr>,
       \<lparr>localStorage = [], cookies = [], storageBlocked = False\<rparr>)"
    by (simp add: forceClearAuth_def clearSupabaseAuth_def unreachableBackend_def freshApp_def
          clearCookies_def crowded_sweep_thrice)
  have empty: "clearLocalStorage 0 [] = []"
    by (simp add: clearLocalStorage.simps)
  have second_boot: "boot unreachableBackend (boot unreachableBackend (freshApp, crowdedBrowser)) =
      (freshApp\<lparr>loading := False, authChecked := True\<rparr>,
       \<lparr>localStorage = [], cookies = [], storageBlocked = False\<rparr>)"
    unfolding first_boot unfolding boot_def again
    by (simp add: initializeAuth_def clearSupabaseAuth_def unreachableBackend_def freshApp_def
          clearCookies_def empty)
  have kept: "authKey ''sb-proj-auth-token''"
    by (simp add: authKey_def)
  have after_one: "user (fst (boot unreachableBackend (freshApp, crowdedBrowser))) = None
      \<and> authChecked (fst (boot unreachableBackend (freshApp, crowdedBrowser)))
      \<and> localStorage (snd (boot unreachableBackend (freshApp, crowdedBrowser))) =
          [(''sb-proj-auth-token'', ''session'')]"
    unfolding first_boot by (simp add: freshApp_def)
  have after_two:
    "localStorage (snd (boot unreachableBackend (boot unreachableBackend (freshApp, crowdedBrowser)))) = []"
    unfolding second_boot by simp
  show ?thesis
    using after_one kept after_two alone by blast
qed

subsection \<open>The Facebook SDK wrapper\<close>

text \<open>
  C10, as it fails: with \<^verbatim>\<open>FB\<close> present and \<^verbatim>\<open>FB.getLoginStatus\<close> throwing before it
  has called back, the exception leaves the executor and the promise is rejected.
\<close>

theorem checkFacebookLoginStatus_rejects_when_sdk_throws:
  "checkFacebookLoginStatus (Some brokenSdk) = Rejected ''FB.getLoginStatus is not a function''"
  by (simp add: checkFacebookLoginStatus_def brokenSdk_def settle_def)

text \<open>
  C10, amended. Without the SDK \<^verbatim>\<open>checkFacebookLoginStatus\<close> resolves with
  \<^verbatim>\<open>{ status: 'error', authResponse: null }\<close>. With the SDK it is rejected exactly when
  \<^verbatim>\<open>FB.getLoginStatus\<close> throws before it has called back, and then with what was thrown;
  it is resolved exactly with the first response handed to the callback when nothing was
  thrown before; otherwise it stays pending.
\<close>

theorem checkFacebookLoginStatus_settles_as_the_sdk_does:
  "checkFacebookLoginStatus None = Resolved \<lparr>status = FbError, authResponse = None\<rparr>
   \<and> (\<forall>run m. (checkFacebookLoginStatus (Some (FB run)) = Rejected m) =
          (calledBackDuring run = None \<and> thrown run = Some m))
   \<and> (\<forall>run response. (checkFacebookLoginStatus (Some (FB run)) = Resolved response) =
          (calledBackDuring run = Some response
           \<or> calledBackDuring run = None \<and> thrown run = None \<and> calledBackLater run = Some response))
   \<and> (\<forall>run. (checkFacebookLoginStatus (Some (FB run)) = Pending) =
          (calledBackDuring run = None \<and> thrown run = None \<and> calledBackLater run = None))"
  by (auto simp: checkFacebookLoginStatus_def settle_def split: option.splits)

theorem checkFacebookLoginStatus_settles_as_the_sdk_does_witness:
  "checkFacebookLoginStatus None = Resolved \<lparr>status = FbError, authResponse = None\<rparr>
   \<and> checkFacebookLoginStatus (Some answeringSdk) = Resolved loggedOut
   \<and> checkFacebookLoginStatus (Some silentSdk) = Pending
   \<and> checkFacebookLoginStatus (Some brokenSdk) = Rejected ''FB.getLoginStatus is not a function''"
  using checkFacebookLoginStatus_settles_as_the_sdk_does
  by (simp add: answeringSdk_def silentSdk_def brokenSdk_def)

subsection \<open>The OAuth callback pages\<close>

text \<open>
  C4. A callback of either provider whose URL carries no \<^verbatim>\<open>code\<close> parameter ends in
  status \<^verbatim>\<open>error\<close>; it sends no request to \<^verbatim>\<open>social_connections\<close>, leaves the table
  as it was and arms no redirect.
\<close>

theorem missing_code_is_terminal_error:
  assumes "getParam (search rq) ''code'' = None"
  shows "cb_status (handleFacebookCallback be rq w) = Error
       \<and> db_calls (handleFacebookCallback be rq w) = db_calls w
       \<and> social_connections (handleFacebookCallback be rq w) = social_connections w
       \<and> timers (handleFacebookCallback be rq w) = timers w
       \<and> cb_status (handleInstagramCallback be rq w) = Error
       \<and> db_calls (handleInstagramCallback be rq w) = db_calls w
       \<and> social_connections (handleInstagramCallback be rq w) = social_connections w
       \<and> timers (handleInstagramCallback be rq w) = timers w"
  using assms
  by (simp add: handleFacebookCallback_def handleInstagramCallback_def failFacebook_def
        failInstagram_def setStatus_def)

theorem missing_code_is_terminal_error_witness:
  "getParam (search (callbackRequest\<lparr>search := [(''state'', ''xyz'')]\<rparr>)) ''code'' = None
   \<and> cb_status (handleFacebookCallback signedInBackend
        (callbackRequest\<lparr>search := [(''state'', ''xyz'')]\<rparr>) (mountCallback [connectedPage])) = Error
   \<and> db_calls (handleFacebookCallback signedInBackend
        (callbackRequest\<lparr>search := [(''state'', ''xyz'')]\<rparr>) (mountCallback [connectedPage])) = []
   \<and> cb_status (handleInstagramCallback signedInBackend
        (callbackRequest\<lparr>search := [(''state'', ''xyz'')]\<rparr>) (mountCallback [connectedPage])) = Error
   \<and> db_calls (handleInstagramCallback signedInBackend
        (callbackRequest\<lparr>search := [(''state'', ''xyz'')]\<rparr>) (mountCallback [connectedPage])) = []"
proof -
  have c: "getParam (search (callbackRequest\<lparr>search := [(''state'', ''xyz'')]\<rparr>)) ''code'' = None"
    by (simp add: getParam_def)
  show ?thesis
    using c missing_code_is_terminal_error[OF c, of signedInBackend "mountCallback [connectedPage]"]
    by (simp add: mountCallback_def)
qed


text \<open>
  C9. When the code is present, the user resolves and the table requests come back
  without error, the run of either page sets the status to \<^verbatim>\<open>processing\<close> and then
  to \<^verbatim>\<open>success\<close>, and arms exactly one timer: after 2000 ms it navigates to
  \<^verbatim>\<open>/settings\<close> with \<^verbatim>\<open>replace: true\<close>.
\<close>

theorem persisted_callback_redirects_once:
  assumes "getParam (search rq) ''code'' = Some code" and "code \<noteq> []"
      and "getUser be = Returns (Some u, None)"
  shows "(selectError rq = None
          \<and> (case selectConnections (uid u) ''540380515830720'' (social_connections w) of
                [] \<Rightarrow> insertError rq = None | existing # rest \<Rightarrow> updateError rq = None)
          \<longrightarrow> cb_status (handleFacebookCallback be rq w) = Success
            \<and> status_log (handleFacebookCallback be rq w) = status_log w @ [Processing, Success]
            \<and> timers (handleFacebookCallback be rq w) = timers w @ [(2000, Navigate ''/settings'' True)])
       \<and> (insertError rq = None
          \<longrightarrow> cb_status (handleInstagramCallback be rq w) = Success
            \<and> status_log (handleInstagramCallback be rq w) = status_log w @ [Processing, Success]
            \<and> timers (handleInstagramCallback be rq w) = timers w @ [(2000, Navigate ''/settings'' True)])"
proof (intro conjI impI)
  assume fb: "selectError rq = None
          \<and> (case selectConnections (uid u) ''540380515830720'' (social_connections w) of
                [] \<Rightarrow> insertError rq = None | existing # rest \<Rightarrow> updateError rq = None)"
  let ?w1 = "setStatus Processing w"
  have tbl: "social_connections ?w1 = social_connections w" by (simp add: setStatus_def)
  from fb obtain w2 where w2: "storeFacebookConnection rq u ?w1 = (None, w2)"
     "cb_status w2 = Success" "status_log w2 = status_log ?w1 @ [Success]"
     "timers w2 = timers ?w1 @ [(2000, Navigate ''/settings'' True)]"
    using storeFacebook_ok[of rq u ?w1] unfolding tbl by blast
  have res: "handleFacebookCallback be rq w = w2"
    using assms w2(1) by (simp add: handleFacebookCallback_def Let_def)
  show "cb_status (handleFacebookCallback be rq w) = Success" using res w2 by simp
  show "status_log (handleFacebookCallback be rq w) = status_log w @ [Processing, Success]"
    using res w2 by (simp add: setStatus_def)
  show "timers (handleFacebookCallback be rq w) = timers w @ [(2000, Navigate ''/settings'' True)]"
    using res w2 by (simp add: setStatus_def)
next
  assume ig: "insertError rq = None"
  have res: "handleInstagramCallback be rq w =
      redirectToSettings ((setStatus Processing w)\<lparr>db_calls := db_calls w @ [Insert (uid u)],
         social_connections := insertConnection (newInstagramRow rq (uid u)) (social_connections w)\<rparr>)"
    using assms ig
    by (simp add: handleInstagramCallback_def storeInstagramConnection_def Let_def setStatus_def)
  show "cb_status (handleInstagramCallback be rq w) = Success"
    unfolding res by (simp add: redirectToSettings_def setStatus_def)
  show "status_log (handleInstagramCallback be rq w) = status_log w @ [Processing, Success]"
    unfolding res by (simp add: redirectToSettings_def setStatus_def)
  show "timers (handleInstagramCallback be rq w) = timers w @ [(2000, Navigate ''/settings'' True)]"
    unfolding res by (simp add: redirectToSettings_def setStatus_def)
qed

theorem persisted_callback_redirects_once_witness:
  "getParam (search callbackRequest) ''code'' = Some ''AQB1'' \<and> ''AQB1'' \<noteq> []
   \<and> getUser signedInBackend = Returns (Some ann, None)
   \<and> selectError callbackRequest = None
   \<and> selectConnections (uid ann) ''540380515830720'' (social_connections (mountCallback [connectedPage]))
        = [connectedPage]
   \<and> updateError callbackRequest = None
   \<and> insertError callbackRequest = None
   \<and> cb_status (handleFacebookCallback signedInBackend callbackRequest (mountCallback [connectedPage])) = Success
   \<and> status_log (handleFacebookCallback signedInBackend callbackRequest (mountCallback [connectedPage]))
        = [Processing, Success]
   \<and> timers (handleFacebookCallback signedInBackend callbackRequest (mountCallback [connectedPage]))
        = [(2000, Navigate ''/settings'' True)]
   \<and> cb_status (handleInstagramCallback signedInBackend callbackRequest (mountCallback [connectedPage])) = Success
   \<and> status_log (handleInstagramCallback signedInBackend callbackRequest (mountCallback [connectedPage]))
        = [Processing, Success]
   \<and> timers (handleInstagramCallback signedInBackend callbackRequest (mountCallback [connectedPage]))
        = [(2000, Navigate ''/settings'' True)]"
proof -
  have c: "getParam (search callbackRequest) ''code'' = Some ''AQB1''" "''AQB1'' \<noteq> []"
    by (simp_all add: getParam_def callbackRequest_def)
  have g: "getUser signedInBackend = Returns (Some ann, None)"
    by (simp add: signedInBackend_def)
  have s: "selectConnections (uid ann) ''540380515830720'' (social_connections (mountCallback [connectedPage]))
        = [connectedPage]"
    by (simp add: selectConnections_def mountCallback_def connectedPage_def ann_def)
  have e: "selectError callbackRequest = None" "updateError callbackRequest = None"
    "insertError callbackRequest = None"
    by (simp_all add: callbackRequest_def)
  show ?thesis
    using c g s e
      persisted_callback_redirects_once[OF c g, of "mountCallback [connectedPage]"]
    by (simp add: mountCallback_def)
qed

text \<open>
  C5. A Facebook callback that succeeds for user \<open>U\<close> (page \<open>P\<close> is the page the code
  selects, \<^verbatim>\<open>540380515830720\<close>), over a table whose ids are distinct: when the select
  finds rows for \<open>(U, P)\<close>, the first of them gets the new token, expiry and
  refreshed-at in its place, every other row and the number of rows stay as they were,
  and the requests sent are the select and one update, no insert; when it finds none,
  exactly one row for \<open>(U, P)\<close> is appended by one insert.
\<close>

theorem facebook_callback_updates_or_inserts:
  assumes "getParam (search rq) ''code'' = Some code" and "code \<noteq> []"
      and "getUser be = Returns (Some u, None)"
      and "selectError rq = None"
      and "distinct (map row_id (social_connections w))"
  shows "(\<forall>existing rest.
            selectConnections (uid u) ''540380515830720'' (social_connections w) = existing # rest
            \<and> updateError rq = None \<longrightarrow>
            (\<exists>i<length (social_connections w).
                social_connections w ! i = existing
              \<and> user_id existing = uid u \<and> fb_page_id existing = Some ''540380515830720''
              \<and> social_connections (handleFacebookCallback be rq w) =
                  (social_connections w)
                    [i := existing\<lparr>access_token := ''EAATk...mockToken123456789'',
                                   token_expiry := expiryIso rq,
                                   refreshed_at := Some (nowIso rq)\<rparr>])
            \<and> db_calls (handleFacebookCallback be rq w) =
                db_calls w @ [Select (uid u) ''540380515830720'', Update (row_id existing)])
       \<and> (selectConnections (uid u) ''540380515830720'' (social_connections w) = []
            \<and> insertError rq = None \<longrightarrow>
            social_connections (handleFacebookCallback be rq w) =
              social_connections w @
                [\<lparr>row_id = nextId (social_connections w), user_id = uid u,
                  fb_page_id = Some ''540380515830720'', ig_account_id = None,
                  access_token = ''EAATk...mockToken123456789'',
                  token_expiry = expiryIso rq, refreshed_at = None\<rparr>]
            \<and> db_calls (handleFacebookCallback be rq w) =
                db_calls w @ [Select (uid u) ''540380515830720'', Insert (uid u)])"
proof (intro conjI allI impI)
  fix existing rest
  assume h: "selectConnections (uid u) ''540380515830720'' (social_connections w) = existing # rest
            \<and> updateError rq = None"
  from h select_first obtain i where i: "i < length (social_connections w)"
     "social_connections w ! i = existing" "user_id existing = uid u"
     "fb_page_id existing = Some ''540380515830720''" by blast
  have res: "handleFacebookCallback be rq w =
      redirectToSettings ((setStatus Processing w)
        \<lparr>db_calls := db_calls w @ [Select (uid u) ''540380515830720'', Update (row_id existing)],
         social_connections := updateConnection (row_id existing) (refreshToken rq) (social_connections w)\<rparr>)"
    using assms h
    by (simp add: handleFacebookCallback_def storeFacebookConnection_def mockPages_def Let_def setStatus_def)
  have upd: "updateConnection (row_id existing) (refreshToken rq) (social_connections w) =
      (social_connections w)[i := refreshToken rq existing]"
    using updateConnection_nth[OF assms(5) i(1)] i(2) by simp
  show "\<exists>i<length (social_connections w).
                social_connections w ! i = existing
              \<and> user_id existing = uid u \<and> fb_page_id existing = Some ''540380515830720''
              \<and> social_connections (handleFacebookCallback be rq w) =
                  (social_connections w)
                    [i := existing\<lparr>access_token := ''EAATk...mockToken123456789'',
                                   token_expiry := expiryIso rq,
                                   refreshed_at := Some (nowIso rq)\<rparr>]"
    using i upd unfolding res
    by (intro exI[of _ i]) (simp add: redirectToSettings_def setStatus_def refreshToken_def mockToken_def)
  show "db_calls (handleFacebookCallback be rq w) =
                db_calls w @ [Select (uid u) ''540380515830720'', Update (row_id existing)]"
    unfolding res by (simp add: redirectToSettings_def setStatus_def)
next
  assume h: "selectConnections (uid u) ''540380515830720'' (social_connections w) = []
            \<and> insertError rq = None"
  have res: "handleFacebookCallback be rq w =
      redirectToSettings ((setStatus Processing w)
        \<lparr>db_calls := db_calls w @ [Select (uid u) ''540380515830720'', Insert (uid u)],
         social_connections := insertConnection (newFacebookRow rq (uid u) ''540380515830720'') (social_connections w)\<rparr>)"
    using assms h
    by (simp add: handleFacebookCallback_def storeFacebookConnection_def mockPages_def Let_def setStatus_def)
  show "social_connections (handleFacebookCallback be rq w) =
              social_connections w @
                [\<lparr>row_id = nextId (social_connections w), user_id = uid u,
                  fb_page_id = Some ''540380515830720'', ig_account_id = None,
                  access_token = ''EAATk...mockToken123456789'',
                  token_expiry = expiryIso rq, refreshed_at = None\<rparr>]"
    unfolding res
    by (simp add: redirectToSettings_def setStatus_def insertConnection_def newFacebookRow_def mockToken_def)
  show "db_calls (handleFacebookCallback be rq w) =
                db_calls w @ [Select (uid u) ''540380515830720'', Insert (uid u)]"
    unfolding res by (simp add: redirectToSettings_def setStatus_def)
qed

theorem facebook_callback_updates_or_inserts_witness:
  "getParam (search callbackRequest) ''code'' = Some ''AQB1'' \<and> ''AQB1'' \<noteq> []
   \<and> getUser signedInBackend = Returns (Some ann, None)
   \<and> selectError callbackRequest = None
   \<and> updateError callbackRequest = None
   \<and> insertError callbackRequest = None
   \<and> distinct (map row_id (social_connections (mountCallback [connectedPage])))
   \<and> selectConnections (uid ann) ''540380515830720'' (social_connections (mountCallback [connectedPage]))
        = [connectedPage]
   \<and> social_connections (handleFacebookCallback signedInBackend callbackRequest (mountCallback [connectedPage])) =
        [connectedPage\<lparr>access_token := ''EAATk...mockToken123456789'',
                        token_expiry := ''2025-03-02T10:00:00.000Z'',
                        refreshed_at := Some ''2025-01-01T10:00:00.000Z''\<rparr>]
   \<and> db_calls (handleFacebookCallback signedInBackend callbackRequest (mountCallback [connectedPage])) =
        [Select ''u1'' ''540380515830720'', Update 7]
   \<and> distinct (map row_id (social_connections (mountCallback [])))
   \<and> selectConnections (uid ann) ''540380515830720'' (social_connections (mountCallback [])) = []
   \<and> social_connections (handleFacebookCallback signedInBackend callbackRequest (mountCallback [])) =
        [\<lparr>row_id = 1, user_id = ''u1'', fb_page_id = Some ''540380515830720'', ig_account_id = None,
          access_token = ''EAATk...mockToken123456789'',
          token_expiry = ''2025-03-02T10:00:00.000Z'', refreshed_at = None\<rparr>]
   \<and> db_calls (handleFacebookCallback signedInBackend callbackRequest (mountCallback [])) =
        [Select ''u1'' ''540380515830720'', Insert ''u1'']"
proof -
  have c: "getParam (search callbackRequest) ''code'' = Some ''AQB1''" "''AQB1'' \<noteq> []"
    by (simp_all add: getParam_def callbackRequest_def)
  have g: "getUser signedInBackend = Returns (Some ann, None)"
    by (simp add: signedInBackend_def)
  have e: "selectError callbackRequest = None" "updateError callbackRequest = None"
    "insertError callbackRequest = None"
    by (simp_all add: callbackRequest_def)
  have d1: "distinct (map row_id (social_connections (mountCallback [connectedPage])))"
    by (simp add: mountCallback_def)
  have d0: "distinct (map row_id (social_connections (mountCallback [])))"
    by (simp add: mountCallback_def)
  have s1: "selectConnections (uid ann) ''540380515830720'' (social_connections (mountCallback [connectedPage]))
        = [connectedPage]"
    by (simp add: selectConnections_def mountCallback_def connectedPage_def ann_def)
  have s0: "selectConnections (uid ann) ''540380515830720'' (social_connections (mountCallback [])) = []"
    by (simp add: selectConnections_def mountCallback_def)
  have x: "expiryIso callbackRequest = ''2025-03-02T10:00:00.000Z''"
    "nowIso callbackRequest = ''2025-01-01T10:00:00.000Z''" "uid ann = ''u1''"
    "row_id connectedPage = 7"
    by (simp_all add: callbackRequest_def ann_def connectedPage_def)
  have t: "social_connections (mountCallback [connectedPage]) = [connectedPage]"
    "db_calls (mountCallback [connectedPage]) = []"
    "social_connections (mountCallback []) = []" "db_calls (mountCallback []) = []"
    by (simp_all add: mountCallback_def)
  show ?thesis
    using c g e d1 d0 s1 s0
      facebook_callback_updates_or_inserts[OF c g e(1) d1]
      facebook_callback_updates_or_inserts[OF c g e(1) d0]
    unfolding x t by (simp add: nextId_def x)
qed

text \<open>
  C6, as it fails: two Instagram callbacks of one user that draw the same random account
  number each insert a row, so the table holds two rows for one (user, Instagram
  account) pair.
\<close>

theorem instagram_callbacks_duplicate_pair:
  "onePerAccount []
   \<and> \<not> onePerAccount
        (completions
           [(Instagram, signedInBackend, callbackRequest),
            (Instagram, signedInBackend, callbackRequest)] [])"
  by (simp add: onePerAccount_def facebookPairs_def instagramPairs_def
        runCallback_def mountCallback_def handleInstagramCallback_def storeInstagramConnection_def
        getParam_def callbackRequest_def signedInBackend_def setStatus_def redirectToSettings_def
        insertConnection_def newInstagramRow_def Let_def)

text \<open>
  C6, amended. Over any sequence of callback runs of either provider, starting from a
  table with at most one row per (user, Facebook page) pair, the table keeps at most one
  row per (user, Facebook page) pair.
\<close>

theorem facebook_pairs_stay_unique:
  "onePerFacebookPage tbl \<Longrightarrow> onePerFacebookPage (completions cbs tbl)"
proof (induction cbs arbitrary: tbl)
  case Nil
  then show ?case by simp
next
  case (Cons cb cbs)
  obtain p be rq where cb: "cb = (p, be, rq)" by (cases cb) auto
  have "onePerFacebookPage (social_connections (runCallback p be rq (mountCallback tbl)))"
    using Cons.prems handleFacebook_keeps[of "mountCallback tbl" be rq]
      handleInstagram_keeps[of "mountCallback tbl" be rq]
    by (cases p) (simp_all add: runCallback_def mountCallback_def)
  then show ?case using Cons.IH cb by simp
qed

theorem facebook_pairs_stay_unique_witness:
  "onePerFacebookPage []
   \<and> onePerFacebookPage
       (completions
          [(Facebook, signedInBackend, callbackRequest),
           (Instagram, signedInBackend, callbackRequest),
           (Facebook, signedInBackend, callbackRequest),
           (Instagram, signedInBackend, callbackRequest)] [])
   \<and> length (completions
          [(Facebook, signedInBackend, callbackRequest),
           (Instagram, signedInBackend, callbackRequest),
           (Facebook, signedInBackend, callbackRequest),
           (Instagram, signedInBackend, callbackRequest)] []) = 3"
proof -
  have e: "onePerFacebookPage []"
    by (simp add: onePerFacebookPage_def facebookPairs_def)
  have n: "length (completions
          [(Facebook, signedInBackend, callbackRequest),
           (Instagram, signedInBackend, callbackRequest),
           (Facebook, signedInBackend, callbackRequest),
           (Instagram, signedInBackend, callbackRequest)] []) = 3"
    by (simp add: runCallback_def mountCallback_def handleInstagramCallback_def
        handleFacebookCallback_def storeFacebookConnection_def storeInstagramConnection_def
        mockPages_def selectConnections_def updateConnection_def
        getParam_def callbackRequest_def signedInBackend_def ann_def setStatus_def
        redirectToSettings_def insertConnection_def newInstagramRow_def newFacebookRow_def Let_def)
  show ?thesis
    using e n facebook_pairs_stay_unique[OF e,
      of "[(Facebook, signedInBackend, callbackRequest),
           (Instagram, signedInBackend, callbackRequest),
           (Facebook, signedInBackend, callbackRequest),
           (Instagram, signedInBackend, callbackRequest)]"]
    by simp
qed

subsection \<open>Further facts: the forced sign-out\<close>

text \<open>
  \<^verbatim>\<open>clearSupabaseAuth\<close> reports success to its caller whatever its steps did.
\<close>

theorem clearSupabaseAuth_always_reports_success:
  "fst (clearSupabaseAuth be b) = True"
  by (simp add: clearSupabaseAuth_def Let_def split: prod.splits js.splits)

text \<open>
  When the keys of \<^verbatim>\<open>localStorage\<close> are distinct and no two neighbouring entries
  both carry an auth key, the removal loop leaves no auth key behind.
\<close>

theorem isolated_auth_keys_are_all_removed:
  assumes "distinct (map fst ls)" and "noAdjacentAuthKeys ls"
  shows "filter (\<lambda>e. authKey (fst e)) (clearLocalStorage 0 ls) = []"
  using clearLocalStorage_general[of ls 0] assms by simp

theorem isolated_auth_keys_are_all_removed_witness:
  "distinct (map fst [(''lang'', ''en''), (''sb-proj-auth-token'', ''session''),
                      (''sidebar'', ''open''), (''supabase.auth.token'', ''legacy'')])
   \<and> noAdjacentAuthKeys [(''lang'', ''en''), (''sb-proj-auth-token'', ''session''),
                          (''sidebar'', ''open''), (''supabase.auth.token'', ''legacy'')]
   \<and> clearLocalStorage 0 [(''lang'', ''en''), (''sb-proj-auth-token'', ''session''),
                           (''sidebar'', ''open''), (''supabase.auth.token'', ''legacy'')] =
       [(''lang'', ''en''), (''sidebar'', ''open'')]"
proof -
  have d: "distinct (map fst [(''lang'', ''en''), (''sb-proj-auth-token'', ''session''),
                      (''sidebar'', ''open''), (''supabase.auth.token'', ''legacy'')])"
    by simp
  have n: "noAdjacentAuthKeys [(''lang'', ''en''), (''sb-proj-auth-token'', ''session''),
                          (''sidebar'', ''open''), (''supabase.auth.token'', ''legacy'')]"
    by (simp add: authKey_def)
  have r: "clearLocalStorage 0 [(''lang'', ''en''), (''sb-proj-auth-token'', ''session''),
                           (''sidebar'', ''open''), (''supabase.auth.token'', ''legacy'')] =
       [(''lang'', ''en''), (''sidebar'', ''open'')]"
    by (simp add: clearLocalStorage.simps authKey_def removeItem_def)
  show ?thesis
    using d n r isolated_auth_keys_are_all_removed[OF d n] by simp
qed

text \<open>
  When the first entry of \<^verbatim>\<open>localStorage\<close> carries an auth key, the loop removes
  it and never examines the entry that followed it: that entry is the first of the
  result, auth key or not.
\<close>

theorem entry_after_removed_key_is_kept:
  assumes "distinct (map fst ((k1, v1) # (k2, v2) # rest))" and "authKey k1"
  shows "clearLocalStorage 0 ((k1, v1) # (k2, v2) # rest) \<noteq> []
       \<and> hd (clearLocalStorage 0 ((k1, v1) # (k2, v2) # rest)) = (k2, v2)"
proof -
  let ?ls' = "removeItem k1 ((k1, v1) # (k2, v2) # rest)"
  have rm: "?ls' = (k2, v2) # rest"
    using removeItem_nth[OF assms(1), of 0] by simp
  have step: "clearLocalStorage 0 ((k1, v1) # (k2, v2) # rest) = clearLocalStorage 1 ((k2, v2) # rest)"
    using assms(2) authKey_nonempty rm by (subst clearLocalStorage.simps) simp
  have d: "distinct (map fst ((k2, v2) # rest))" using assms(1) by simp
  have "take 1 (clearLocalStorage 1 ((k2, v2) # rest)) = take 1 ((k2, v2) # rest)"
    using clearLocalStorage_prefix[OF d, of 1] by simp
  then have "take 1 (clearLocalStorage 1 ((k2, v2) # rest)) = [(k2, v2)]" by simp
  then show ?thesis unfolding step
    by (cases "clearLocalStorage 1 ((k2, v2) # rest)") simp_all
qed

theorem entry_after_removed_key_is_kept_witness:
  "distinct (map fst [(''sb-beta-auth-token'', ''other project''),
                      (''sb-proj-auth-token'', ''session'')])
   \<and> authKey ''sb-beta-auth-token''
   \<and> authKey ''sb-proj-auth-token''
   \<and> hd (clearLocalStorage 0 [(''sb-beta-auth-token'', ''other project''),
                               (''sb-proj-auth-token'', ''session'')]) =
       (''sb-proj-auth-token'', ''session'')"
proof -
  have d: "distinct (map fst ((''sb-beta-auth-token'', ''other project'') #
                      (''sb-proj-auth-token'', ''session'') # []))"
    by simp
  have a: "authKey ''sb-beta-auth-token''" "authKey ''sb-proj-auth-token''"
    by (simp_all add: authKey_def)
  show ?thesis
    using d a entry_after_removed_key_is_kept[OF d a(1)] by simp
qed

subsection \<open>Further facts: the bootstrapper's other branches\<close>

text \<open>
  When a session exists and user resolution delivers null or rejects,
  \<^verbatim>\<open>initializeAuth\<close> ends with \<^verbatim>\<open>user = null\<close>, \<^verbatim>\<open>authChecked = true\<close>, no error and
  \<^verbatim>\<open>loading = false\<close>; the browser stores are what \<^verbatim>\<open>clearSupabaseAuth\<close> makes of
  them; and booting again leaves the component state as it was after the first boot.
\<close>

theorem invalid_session_clears_user_and_signs_out:
  assumes "getSession be = Returns (Some s, None)"
      and "getCurrentUser be = Returns None \<or> getCurrentUser be = Throws m"
  shows "initializeAuth be w =
           ((fst w)\<lparr>loading := False, error := None, user := None, authChecked := True\<rparr>,
            snd (clearSupabaseAuth be (snd w)))
       \<and> fst (boot be (boot be w)) = fst (boot be w)"
  using assms
  by (auto simp: initializeAuth_def boot_def forceClearAuth_def Let_def)

theorem invalid_session_clears_user_and_signs_out_witness:
  "getSession unreachableBackend =
     Returns (Some \<lparr>subject = ''u1'', session_email = Some ''ann@example.org''\<rparr>, None)
   \<and> getCurrentUser unreachableBackend = Throws ''Failed to fetch''
   \<and> fst (initializeAuth unreachableBackend (freshApp\<lparr>user := Some ann\<rparr>, emptyBrowser)) =
       freshApp\<lparr>loading := False, authChecked := True\<rparr>"
proof -
  have s: "getSession unreachableBackend =
     Returns (Some \<lparr>subject = ''u1'', session_email = Some ''ann@example.org''\<rparr>, None)"
    by (simp add: unreachableBackend_def)
  have u: "getCurrentUser unreachableBackend = Throws ''Failed to fetch''"
    by (simp add: unreachableBackend_def)
  have u': "getCurrentUser unreachableBackend = Returns None
            \<or> getCurrentUser unreachableBackend = Throws ''Failed to fetch''"
    using u by simp
  show ?thesis
    using s u invalid_session_clears_user_and_signs_out[OF s u',
        of "(freshApp\<lparr>user := Some ann\<rparr>, emptyBrowser)"]
    by (simp add: freshApp_def)
qed

text \<open>
  When \<^verbatim>\<open>getSession\<close> delivers an error, \<^verbatim>\<open>initializeAuth\<close> exposes
  \<^verbatim>\<open>Failed to check authentication status\<close>, lowers \<^verbatim>\<open>loading\<close> and touches neither
  \<^verbatim>\<open>user\<close>, \<^verbatim>\<open>authChecked\<close> nor the browser stores.
\<close>

theorem session_lookup_error_is_exposed:
  assumes "getSession be = Returns (s, Some e)"
  shows "initializeAuth be w =
           ((fst w)\<lparr>loading := False, error := Some ''Failed to check authentication status''\<rparr>,
            snd w)"
  using assms by (simp add: initializeAuth_def Let_def)

theorem session_lookup_error_is_exposed_witness:
  "getSession (signedOutBackend\<lparr>getSession := Returns (None, Some ''Supabase not configured'')\<rparr>) =
     Returns (None, Some ''Supabase not configured'')
   \<and> initializeAuth (signedOutBackend\<lparr>getSession := Returns (None, Some ''Supabase not configured'')\<rparr>)
        (freshApp, emptyBrowser) =
       (freshApp\<lparr>loading := False, error := Some ''Failed to check authentication status''\<rparr>,
        emptyBrowser)"
proof -
  have s: "getSession (signedOutBackend\<lparr>getSession := Returns (None, Some ''Supabase not configured'')\<rparr>) =
     Returns (None, Some ''Supabase not configured'')"
    by simp
  show ?thesis
    using s session_lookup_error_is_exposed[OF s, of "(freshApp, emptyBrowser)"] by simp
qed

text \<open>
  When a session exists and user resolution delivers a user, \<^verbatim>\<open>initializeAuth\<close>
  ends with that user, \<^verbatim>\<open>authChecked = true\<close>, no error and \<^verbatim>\<open>loading = false\<close>, and
  leaves the browser stores alone.
\<close>

theorem resolved_user_is_exposed:
  assumes "getSession be = Returns (Some s, None)"
      and "getCurrentUser be = Returns (Some u)"
  shows "initializeAuth be w =
           ((fst w)\<lparr>loading := False, error := None, user := Some u, authChecked := True\<rparr>, snd w)"
  using assms by (simp add: initializeAuth_def Let_def)

theorem resolved_user_is_exposed_witness:
  "getSession signedInBackend =
     Returns (Some \<lparr>subject = ''u1'', session_email = Some ''ann@example.org''\<rparr>, None)
   \<and> getCurrentUser signedInBackend = Returns (Some ann)
   \<and> initializeAuth signedInBackend (freshApp, emptyBrowser) =
       (freshApp\<lparr>loading := False, user := Some ann, authChecked := True\<rparr>, emptyBrowser)"
proof -
  have s: "getSession signedInBackend =
     Returns (Some \<lparr>subject = ''u1'', session_email = Some ''ann@example.org''\<rparr>, None)"
    by (simp add: signedInBackend_def)
  have u: "getCurrentUser signedInBackend = Returns (Some ann)"
    by (simp add: signedInBackend_def)
  show ?thesis
    using s u resolved_user_is_exposed[OF s u, of "(freshApp, emptyBrowser)"]
    by (simp add: freshApp_def)
qed

subsection \<open>Further facts: the monitor and the Instagram page\<close>

text \<open>
  A probe run while the browser is offline marks the backend \<^verbatim>\<open>disconnected\<close> with
  the offline message and changes nothing else, whatever the backend would answer.
\<close>

theorem offline_probe_marks_disconnected:
  assumes "\<not> isOnline st"
  shows "checkSupabaseConnection be now st =
           st\<lparr>supabaseStatus := Disconnected, errorMessage := ''Your device is offline''\<rparr>"
  using assms by (simp add: checkSupabaseConnection_def)

theorem offline_probe_marks_disconnected_witness:
  "\<not> isOnline (handleOffline failingMonitor)
   \<and> checkSupabaseConnection signedInBackend ''10:00:05'' (handleOffline failingMonitor) =
       failingMonitor\<lparr>isOnline := False, errorMessage := ''Your device is offline''\<rparr>"
proof -
  have off: "\<not> isOnline (handleOffline failingMonitor)"
    by (simp add: handleOffline_def)
  show ?thesis
    using off offline_probe_marks_disconnected[OF off, of signedInBackend "''10:00:05''"]
    by (simp add: handleOffline_def failingMonitor_def)
qed

text \<open>
  A scheduled probe leaves the retry counter at zero when the browser is online and
  one of the two checks succeeds, and one above its old value otherwise.
\<close>

theorem scheduled_probe_counts_attempts:
  "retryAttempts (scheduledProbe be now st) =
     (if isOnline st \<and> (sessionCheck be \<or> checkSupabaseDB be = Returns True) then 0
      else retryAttempts st + 1)"
  using checkSupabaseDB_returns[of be]
  by (auto simp: scheduledProbe_def checkSupabaseConnection_def markConnected_def
        markDisconnected_def Let_def split: js.splits)

text \<open>
  An Instagram callback with a code, a resolved user and an insert that comes back
  without error appends exactly one row, by one insert and no other table request.
\<close>

theorem instagram_callback_always_inserts:
  assumes "getParam (search rq) ''code'' = Some code" and "code \<noteq> []"
      and "getUser be = Returns (Some u, e)"
      and "insertError rq = None"
  shows "social_connections (handleInstagramCallback be rq w) =
           social_connections w @
             [\<lparr>row_id = nextId (social_connections w), user_id = uid u, fb_page_id = None,
               ig_account_id = Some (''ig_business_'' @ string_of_nat (randomId rq)),
               access_token = ''ig_token_'' @ string_of_nat (nowMs rq),
               token_expiry = expiryIso rq, refreshed_at = None\<rparr>]
       \<and> db_calls (handleInstagramCallback be rq w) = db_calls w @ [Insert (uid u)]"
  using assms
  by (simp add: handleInstagramCallback_def storeInstagramConnection_def Let_def setStatus_def
        redirectToSettings_def insertConnection_def newInstagramRow_def)

theorem instagram_callback_always_inserts_witness:
  "getParam (search callbackRequest) ''code'' = Some ''AQB1'' \<and> ''AQB1'' \<noteq> []
   \<and> getUser signedInBackend = Returns (Some ann, None)
   \<and> insertError callbackRequest = None
   \<and> map ig_account_id
        (social_connections (handleInstagramCallback signedInBackend callbackRequest
           (mountCallback [connectedPage]))) = [None, Some ''ig_business_42'']
   \<and> map row_id
        (social_connections (handleInstagramCallback signedInBackend callbackRequest
           (mountCallback [connectedPage]))) = [7, 8]
   \<and> db_calls (handleInstagramCallback signedInBackend callbackRequest (mountCallback [connectedPage])) =
        [Insert ''u1'']"
proof -
  have c: "getParam (search callbackRequest) ''code'' = Some ''AQB1''" "''AQB1'' \<noteq> []"
    by (simp_all add: getParam_def callbackRequest_def)
  have g: "getUser signedInBackend = Returns (Some ann, None)"
    by (simp add: signedInBackend_def)
  have e: "insertError callbackRequest = None"
    by (simp add: callbackRequest_def)
  have r: "string_of_nat (randomId callbackRequest) = ''42''"
    by (simp add: callbackRequest_def string_of_nat.simps)
  have t: "social_connections (mountCallback [connectedPage]) = [connectedPage]"
    "db_calls (mountCallback [connectedPage]) = []"
    by (simp_all add: mountCallback_def)
  show ?thesis
    using c g e r
      instagram_callback_always_inserts[OF c g e, of "mountCallback [connectedPage]"]
    unfolding t by (simp add: nextId_def connectedPage_def ann_def)
qed

end
